theory Spec2Isabelle
  imports Main
begin

section \<open>Values, sessions and the process environment\<close>

text \<open>
  The server is one Express application (\<^verbatim>\<open>src/index.js\<close>). A JavaScript string is
  modelled by \<^typ>\<open>string\<close>, one \<^typ>\<open>char\<close> per code unit, so that \<^const>\<open>length\<close>
  is the \<^verbatim>\<open>.length\<close> of the source. A value that may be \<^verbatim>\<open>undefined\<close> is an
  option, \<^const>\<open>None\<close> being \<^verbatim>\<open>undefined\<close>.

  Loosely typed data (a parsed request body, a parsed query string, a cell of a
  spreadsheet, the argument of \<^verbatim>\<open>res.json\<close>) is a \<open>jsval\<close>. An object is the list of
  its properties in insertion order; the first binding of a key is the property.
  Numbers are restricted to integers.
\<close>

datatype jsval =
    JUndefined
  | JNull
  | JBool bool
  | JNum int
  | JStr string
  | JArr "jsval list"
  | JObj "(string \<times> jsval) list"

text \<open>JavaScript truthiness, as \<^verbatim>\<open>!x\<close>, \<^verbatim>\<open>x || y\<close>, \<^verbatim>\<open>x && y\<close> and \<^verbatim>\<open>Boolean(x)\<close> read it.\<close>

fun truthy :: "jsval \<Rightarrow> bool" where
  "truthy JUndefined = False"
| "truthy JNull = False"
| "truthy (JBool b) = b"
| "truthy (JNum n) = (n \<noteq> 0)"
| "truthy (JStr s) = (s \<noteq> [])"
| "truthy (JArr _) = True"
| "truthy (JObj _) = True"

text \<open>Truthiness of a value that is a string or \<^verbatim>\<open>undefined\<close>.\<close>

fun truthy_str :: "string option \<Rightarrow> bool" where
  "truthy_str None = False"
| "truthy_str (Some s) = (s \<noteq> [])"

text \<open>\<^verbatim>\<open>a || b\<close> on such values: \<open>a\<close> when it is truthy, \<open>b\<close> otherwise.\<close>

definition js_or :: "string option \<Rightarrow> string option \<Rightarrow> string option" where
  "js_or a b = (if truthy_str a then a else b)"

text \<open>\<^verbatim>\<open>a || 'literal'\<close>: the right operand is a string, so the result is one.\<close>

definition js_or_lit :: "string option \<Rightarrow> string \<Rightarrow> string" where
  "js_or_lit a d = (case a of None \<Rightarrow> d | Some s \<Rightarrow> if s \<noteq> [] then s else d)"

text \<open>Property access \<^verbatim>\<open>o.k\<close> on an object.\<close>

definition get_prop :: "(string \<times> jsval) list \<Rightarrow> string \<Rightarrow> jsval" where
  "get_prop kvs k = (case map_of kvs k of None \<Rightarrow> JUndefined | Some v \<Rightarrow> v)"

text \<open>A string or \<^verbatim>\<open>undefined\<close> placed in an object literal.\<close>

definition jstr :: "string option \<Rightarrow> jsval" where
  "jstr a = (case a of None \<Rightarrow> JUndefined | Some s \<Rightarrow> JStr s)"

definition jnum :: "int option \<Rightarrow> jsval" where
  "jnum a = (case a of None \<Rightarrow> JUndefined | Some n \<Rightarrow> JNum n)"

text \<open>
  The token bundle the provider issues is opaque to the server; only its presence is
  ever tested.
\<close>

datatype tokens = Tokens (access_token: string) (refresh_token: "string option")

text \<open>
  \<^verbatim>\<open>req.session.clientConfig\<close>: each field may be missing, which is what the optional
  chaining and the \<^verbatim>\<open>||\<close> of \<^verbatim>\<open>getOAuthClient\<close> provide for.
\<close>

record client_config =
  clientId :: "string option"
  clientSecret :: "string option"
  redirectUri :: "string option"

record session =
  tokens :: "tokens option"
  clientConfig :: "client_config option"

text \<open>A session as the middleware creates it, and as it is after \<^verbatim>\<open>destroy\<close>.\<close>

definition new_session :: session where
  "new_session = \<lparr>tokens = None, clientConfig = None\<rparr>"

text \<open>\<^verbatim>\<open>process.env\<close>: the variables the handlers read.\<close>

record env =
  GOOGLE_CLIENT_ID :: "string option"
  GOOGLE_CLIENT_SECRET :: "string option"
  GOOGLE_REDIRECT_URI :: "string option"
  POST_LOGIN_REDIRECT :: "string option"

section \<open>The OAuth client\<close>

text \<open>
  The options object given to \<^verbatim>\<open>new google.auth.OAuth2\<close>, and the credentials that
  \<^verbatim>\<open>setCredentials\<close> attaches to the client afterwards.
\<close>

record oauth_client =
  oa_clientId :: "string option"
  oa_clientSecret :: "string option"
  oa_redirectUri :: "string option"
  oa_credentials :: "tokens option"

text \<open>\<^verbatim>\<open>cfg?.field\<close> for \<^verbatim>\<open>cfg = req?.session?.clientConfig\<close>.\<close>

definition cfg_field :: "(client_config \<Rightarrow> string option) \<Rightarrow> session \<Rightarrow> string option" where
  "cfg_field f s = (case clientConfig s of None \<Rightarrow> None | Some cfg \<Rightarrow> f cfg)"

definition getOAuthClient :: "env \<Rightarrow> session \<Rightarrow> oauth_client" where
  "getOAuthClient E s =
     \<lparr>oa_clientId = js_or (cfg_field clientId s) (GOOGLE_CLIENT_ID E),
      oa_clientSecret = js_or (cfg_field clientSecret s) (GOOGLE_CLIENT_SECRET E),
      oa_redirectUri = js_or (cfg_field redirectUri s) (GOOGLE_REDIRECT_URI E),
      oa_credentials = None\<rparr>"

text \<open>
  \<^verbatim>\<open>getAuthedClients\<close>: the Drive, Sheets and OAuth2 service objects all wrap the one
  client, so the client with its credentials stands for the three of them.
\<close>

definition getAuthedClients :: "env \<Rightarrow> tokens option \<Rightarrow> session \<Rightarrow> oauth_client" where
  "getAuthedClients E t s = (getOAuthClient E s)\<lparr>oa_credentials := t\<rparr>"

section \<open>Library behaviour taken as parameters\<close>

text \<open>
  Joi, the Google client library and the query-string parser are dependencies, not code
  of the repository. What the handlers need of them that is not a plain comparison is a
  parameter: the URI syntax check of \<^verbatim>\<open>Joi.string().uri()\<close>, the conversion of a query
  string to a number by \<^verbatim>\<open>Joi.number()\<close>, the text of a validation error, and the URL
  that \<^verbatim>\<open>generateAuthUrl\<close> assembles.
\<close>

datatype joi_number = NotNumber | Fractional | Integral int

text \<open>Validation errors, named after Joi's error codes, each with the key it is about.\<close>

datatype joi_error =
    any_required string
  | string_base string
  | string_empty string
  | string_min string nat
  | string_uri string
  | number_base string
  | number_integer string
  | number_min string int
  | number_max string int
  | object_base
  | object_unknown string

record auth_url_opts =
  access_type :: string
  prompt :: string
  scope :: "string list"

record library =
  is_uri :: "string \<Rightarrow> bool"
  to_number :: "string \<Rightarrow> joi_number"
  message :: "joi_error \<Rightarrow> string"
  generateAuthUrl :: "oauth_client \<Rightarrow> auth_url_opts \<Rightarrow> string"

subsection \<open>The schemas\<close>

text \<open>\<^verbatim>\<open>Joi.string().min(n).required()\<close> on the value of key \<open>k\<close>.\<close>

definition joi_string_min_required :: "nat \<Rightarrow> string \<Rightarrow> jsval \<Rightarrow> joi_error + string" where
  "joi_string_min_required n k v =
     (case v of
        JUndefined \<Rightarrow> Inl (any_required k)
      | JStr s \<Rightarrow>
          if s = [] then Inl (string_empty k)
          else if length s < n then Inl (string_min k n)
          else Inr s
      | _ \<Rightarrow> Inl (string_base k))"

text \<open>\<^verbatim>\<open>Joi.string().uri().optional().allow('').default(d)\<close>.\<close>

definition joi_uri_default :: "library \<Rightarrow> string \<Rightarrow> string \<Rightarrow> jsval \<Rightarrow> joi_error + string" where
  "joi_uri_default L d k v =
     (case v of
        JUndefined \<Rightarrow> Inr d
      | JStr s \<Rightarrow>
          if s = [] then Inr []
          else if is_uri L s then Inr s
          else Inl (string_uri k)
      | _ \<Rightarrow> Inl (string_base k))"

text \<open>\<^verbatim>\<open>Joi.string().allow('').default('')\<close>.\<close>

definition joi_string_default :: "string \<Rightarrow> string \<Rightarrow> jsval \<Rightarrow> joi_error + string" where
  "joi_string_default d k v =
     (case v of
        JUndefined \<Rightarrow> Inr d
      | JStr s \<Rightarrow> Inr s
      | _ \<Rightarrow> Inl (string_base k))"

text \<open>
  \<^verbatim>\<open>Joi.number().integer().min(lo).default(d)\<close>, with \<^verbatim>\<open>.max(hi)\<close> when \<open>hi\<close> is given.
  A query string value is converted first.
\<close>

definition joi_range :: "string \<Rightarrow> int \<Rightarrow> int option \<Rightarrow> int \<Rightarrow> joi_error + int" where
  "joi_range k lo hi n =
     (if n < lo then Inl (number_min k lo)
      else case hi of
             None \<Rightarrow> Inr n
           | Some h \<Rightarrow> if h < n then Inl (number_max k h) else Inr n)"

definition joi_integer :: "library \<Rightarrow> int \<Rightarrow> int option \<Rightarrow> int \<Rightarrow> string \<Rightarrow> jsval \<Rightarrow> joi_error + int" where
  "joi_integer L lo hi d k v =
     (case v of
        JUndefined \<Rightarrow> Inr d
      | JNum n \<Rightarrow> joi_range k lo hi n
      | JStr s \<Rightarrow>
          (case to_number L s of
             NotNumber \<Rightarrow> Inl (number_base k)
           | Fractional \<Rightarrow> Inl (number_integer k)
           | Integral n \<Rightarrow> joi_range k lo hi n)
      | _ \<Rightarrow> Inl (number_base k))"

text \<open>The body schema of \<^verbatim>\<open>POST /auth/client-config\<close>, validated with \<^verbatim>\<open>stripUnknown\<close>.\<close>

record client_config_value =
  v_clientId :: string
  v_clientSecret :: string
  v_redirectUri :: string

definition default_redirect :: "env \<Rightarrow> string" where
  "default_redirect E = js_or_lit (GOOGLE_REDIRECT_URI E) ''http://localhost:4000/auth/callback''"

definition validate_client_config :: "library \<Rightarrow> env \<Rightarrow> jsval \<Rightarrow> joi_error + client_config_value" where
  "validate_client_config L E body =
     (case (if truthy body then body else JObj []) of
        JObj kvs \<Rightarrow>
          (case joi_string_min_required 10 ''clientId'' (get_prop kvs ''clientId'') of
             Inl e \<Rightarrow> Inl e
           | Inr cid \<Rightarrow>
               (case joi_string_min_required 10 ''clientSecret'' (get_prop kvs ''clientSecret'') of
                  Inl e \<Rightarrow> Inl e
                | Inr sec \<Rightarrow>
                    (case joi_uri_default L (default_redirect E) ''redirectUri''
                            (get_prop kvs ''redirectUri'') of
                       Inl e \<Rightarrow> Inl e
                     | Inr uri \<Rightarrow>
                         Inr \<lparr>v_clientId = cid, v_clientSecret = sec, v_redirectUri = uri\<rparr>)))
      | _ \<Rightarrow> Inl object_base)"

text \<open>
  The query schema of \<^verbatim>\<open>GET /api/sheets\<close>, validated with Joi's defaults: a key the
  schema does not know is an error.
\<close>

record sheets_query =
  page :: int
  pageSize :: int
  query :: string

definition validate_sheets_query :: "library \<Rightarrow> (string \<times> jsval) list \<Rightarrow> joi_error + sheets_query" where
  "validate_sheets_query L kvs =
     (case joi_integer L 1 None 1 ''page'' (get_prop kvs ''page'') of
        Inl e \<Rightarrow> Inl e
      | Inr p \<Rightarrow>
          (case joi_integer L 1 (Some 50) 12 ''pageSize'' (get_prop kvs ''pageSize'') of
             Inl e \<Rightarrow> Inl e
           | Inr ps \<Rightarrow>
               (case joi_string_default [] ''query'' (get_prop kvs ''query'') of
                  Inl e \<Rightarrow> Inl e
                | Inr qs \<Rightarrow>
                    (case find (\<lambda>k. k \<notin> set [''page'', ''pageSize'', ''query'']) (map fst kvs) of
                       Some k \<Rightarrow> Inl (object_unknown k)
                     | None \<Rightarrow> Inr \<lparr>page = p, pageSize = ps, query = qs\<rparr>))))"

section \<open>The remote services\<close>

text \<open>
  The identity provider, the Drive listing and the Sheets API are outside the program.
  Each call is a function of the client that makes it and of its arguments, and either
  fails (the promise rejects) or answers with the \<^verbatim>\<open>data\<close> of the response. The remote
  data does not change while one request is handled.
\<close>

datatype exn = Exn string

record userinfo =
  ui_id :: "string option"
  ui_name :: "string option"
  ui_email :: "string option"
  ui_picture :: "string option"

record drive_user =
  displayName :: "string option"

record drive_file =
  f_id :: "string option"
  f_name :: "string option"
  f_owners :: "drive_user list option"
  f_modifiedTime :: "string option"

record file_list =
  files :: "drive_file list option"
  nextPageToken :: "string option"

record value_range =
  vr_values :: "jsval list list option"

record sheet_properties =
  sheetId :: "int option"
  title :: "string option"
  index :: "int option"

record sheet =
  properties :: "sheet_properties option"

record spreadsheet =
  sheets :: "sheet list option"

record batch_values =
  valueRanges :: "value_range list option"

text \<open>\<^verbatim>\<open>driveParams\<close>; the page token is spread in beside it at each call.\<close>

record drive_params =
  dp_q :: string
  dp_pageSize :: int
  dp_fields :: string
  dp_orderBy :: string

record remote =
  getToken :: "oauth_client \<Rightarrow> string \<Rightarrow> exn + tokens"
  userinfo_get :: "oauth_client \<Rightarrow> exn + userinfo"
  files_list :: "oauth_client \<Rightarrow> drive_params \<Rightarrow> string option \<Rightarrow> exn + file_list"
  values_get :: "oauth_client \<Rightarrow> string option \<Rightarrow> string \<Rightarrow> exn + value_range"
  spreadsheets_get :: "oauth_client \<Rightarrow> string \<Rightarrow> string \<Rightarrow> exn + spreadsheet"
  values_batchGet :: "oauth_client \<Rightarrow> string \<Rightarrow> string list \<Rightarrow> exn + batch_values"

text \<open>The remote calls a handler issues, in the order it issues them.\<close>

datatype call =
    GetToken string
  | UserinfoGet
  | FilesList drive_params "string option"
  | ValuesGet "string option" string
  | SpreadsheetsGet string string
  | ValuesBatchGet string "string list"

section \<open>Responses and requests\<close>

text \<open>
  \<^verbatim>\<open>res.status(n).json(v)\<close>, \<^verbatim>\<open>res.status(n).send(text)\<close> and \<^verbatim>\<open>res.redirect(url)\<close>;
  \<^verbatim>\<open>res.json(v)\<close> alone answers with status 200.
\<close>

datatype response =
    Json nat jsval
  | Send nat string
  | Redirect string

text \<open>
  The routes of the application with what each handler reads of the request: the
  \<^verbatim>\<open>code\<close> query parameter, the parsed body, the parsed query, the \<^verbatim>\<open>:id\<close> parameter.
\<close>

datatype request =
    GET_auth_login
  | GET_auth_callback "string option"
  | GET_auth_client_config
  | POST_auth_client_config jsval
  | GET_root
  | GET_auth_logout
  | GET_api_me
  | GET_api_sheets "(string \<times> jsval) list"
  | POST_api_sheets_refresh string
  | GET_api_sheets_tabs string

text \<open>
  What handling a request amounts to: the remote calls issued, the response sent and
  the session as the handler leaves it.
\<close>

type_synonym outcome = "call list \<times> response \<times> session"

definition quote :: char where
  "quote = CHR 0x27"

definition backslash :: char where
  "backslash = CHR 0x5C"

definition dquote :: char where
  "dquote = CHR 0x22"

text \<open>\<^verbatim>\<open>s.replace(/'/g, r)\<close>: every single quote of \<open>s\<close> is replaced by \<open>r\<close>.\<close>

fun replace_quote :: "string \<Rightarrow> string \<Rightarrow> string" where
  "replace_quote r [] = []"
| "replace_quote r (c # cs) =
     (if c = quote then r @ replace_quote r cs else c # replace_quote r cs)"

text \<open>\<^verbatim>\<open>String(x)\<close> for a string or \<^verbatim>\<open>undefined\<close>.\<close>

definition String :: "string option \<Rightarrow> string" where
  "String x = (case x of None \<Rightarrow> ''undefined'' | Some s \<Rightarrow> s)"

definition OAUTH_SCOPES :: "string list" where
  "OAUTH_SCOPES =
     [''https://www.googleapis.com/auth/drive.metadata.readonly'',
      ''https://www.googleapis.com/auth/spreadsheets.readonly'',
      ''openid'',
      ''email'',
      ''profile'']"

section \<open>The handlers\<close>

definition ensureAuthed :: "session \<Rightarrow> outcome \<Rightarrow> outcome" where
  "ensureAuthed s handler =
     (if tokens s \<noteq> None then handler
      else ([], Json 401 (JObj [(''error'', JStr ''Unauthorized'')]), s))"

definition auth_login :: "library \<Rightarrow> env \<Rightarrow> session \<Rightarrow> outcome" where
  "auth_login L E s =
     ([],
      Redirect (generateAuthUrl L (getOAuthClient E s)
        \<lparr>access_type = ''offline'', prompt = ''consent'', scope = OAUTH_SCOPES\<rparr>),
      s)"

definition auth_callback :: "env \<Rightarrow> remote \<Rightarrow> session \<Rightarrow> string option \<Rightarrow> outcome" where
  "auth_callback E R s code =
     (if \<not> truthy_str code then ([], Send 400 ''Missing code'', s)
      else case getToken R (getOAuthClient E s) (String code) of
             Inl e \<Rightarrow> ([GetToken (String code)], Send 500 ''OAuth callback failed'', s)
           | Inr t \<Rightarrow>
               ([GetToken (String code)],
                Redirect (js_or_lit (POST_LOGIN_REDIRECT E) ''http://localhost:5173/''),
                s\<lparr>tokens := Some t\<rparr>))"

definition client_config_present :: "session \<Rightarrow> bool" where
  "client_config_present s =
     (truthy_str (cfg_field clientId s) \<and> truthy_str (cfg_field clientSecret s))"

definition get_client_config :: "session \<Rightarrow> outcome" where
  "get_client_config s =
     ([],
      Json 200 (JObj
        [(''configured'', JBool (client_config_present s)),
         (''config'',
            if client_config_present s
            then JObj [(''redirectUri'', jstr (cfg_field redirectUri s))]
            else JNull)]),
      s)"

definition post_client_config :: "library \<Rightarrow> env \<Rightarrow> session \<Rightarrow> jsval \<Rightarrow> outcome" where
  "post_client_config L E s body =
     (case validate_client_config L E body of
        Inl error \<Rightarrow> ([], Json 400 (JObj [(''error'', JStr (message L error))]), s)
      | Inr v \<Rightarrow>
          (let uri = (if v_redirectUri v \<noteq> [] \<and> 0 < length (v_redirectUri v)
                      then v_redirectUri v
                      else js_or_lit (GOOGLE_REDIRECT_URI E) ''http://localhost:4000/auth/callback'')
           in ([],
               Json 200 (JObj [(''ok'', JBool True), (''redirectUri'', JStr uri)]),
               s\<lparr>clientConfig :=
                    Some \<lparr>clientId = Some (v_clientId v),
                          clientSecret = Some (v_clientSecret v),
                          redirectUri = Some uri\<rparr>\<rparr>)))"

definition root :: "env \<Rightarrow> session \<Rightarrow> outcome" where
  "root E s =
     (let ui = js_or_lit (POST_LOGIN_REDIRECT E) ''http://localhost:5173/''
      in ([],
          Send 200 (''OK. Open the UI at <a href='' @ [dquote] @ ui @ [dquote] @ ''>'' @ ui
                    @ ''</a>.''),
          s))"

definition auth_logout :: "session \<Rightarrow> outcome" where
  "auth_logout s = ([], Redirect ''/'', new_session)"

definition api_me :: "env \<Rightarrow> remote \<Rightarrow> session \<Rightarrow> outcome" where
  "api_me E R s =
     (case userinfo_get R (getAuthedClients E (tokens s) s) of
        Inl e \<Rightarrow> ([UserinfoGet], Json 500 (JObj [(''error'', JStr ''Failed to fetch user info'')]), s)
      | Inr me \<Rightarrow>
          ([UserinfoGet],
           Json 200 (JObj
             [(''id'', jstr (ui_id me)),
              (''name'', jstr (ui_name me)),
              (''email'', jstr (ui_email me)),
              (''photo'', jstr (ui_picture me))]),
           s))"

subsection \<open>Listing spreadsheets\<close>

definition driveParams :: "sheets_query \<Rightarrow> drive_params" where
  "driveParams v =
     \<lparr>dp_q = ''mimeType='' @ [quote] @ ''application/vnd.google-apps.spreadsheet'' @ [quote]
              @ '' and trashed=false''
              @ (if query v \<noteq> []
                 then '' and name contains '' @ [quote]
                      @ replace_quote [backslash, quote] (query v) @ [quote]
                 else []),
      dp_pageSize = pageSize v,
      dp_fields = ''files(id,name,owners,modifiedTime),nextPageToken'',
      dp_orderBy = ''modifiedTime desc''\<rparr>"

text \<open>
  The loop \<^verbatim>\<open>for (let i = 1; i < page; i++)\<close> from the state \<open>(i, pageToken)\<close>: the
  calls it issues, and the page token it ends with or the error of the call that failed.
\<close>

function skip_pages ::
  "remote \<Rightarrow> oauth_client \<Rightarrow> drive_params \<Rightarrow> int \<Rightarrow> int \<Rightarrow> string option
     \<Rightarrow> call list \<times> (exn + string option)" where
  "skip_pages R c dp pg i pageToken =
     (if i < pg then
        (case files_list R c dp pageToken of
           Inl e \<Rightarrow> ([FilesList dp pageToken], Inl e)
         | Inr r \<Rightarrow>
             if \<not> truthy_str (nextPageToken r)
             then ([FilesList dp pageToken], Inr (nextPageToken r))
             else (case skip_pages R c dp pg (i + 1) (nextPageToken r) of
                     (cs, res) \<Rightarrow> (FilesList dp pageToken # cs, res)))
      else ([], Inr pageToken))"
  by pat_completeness auto
termination
  by (relation "measure (\<lambda>(R, c, dp, pg, i, pageToken). nat (pg - i))") auto

declare skip_pages.simps [simp del]

text \<open>The preview of one file: the \<^verbatim>\<open>try\<close>/\<^verbatim>\<open>catch\<close> inside the mapped function.\<close>

definition file_preview :: "remote \<Rightarrow> oauth_client \<Rightarrow> drive_file \<Rightarrow> jsval list list" where
  "file_preview R c f =
     (case values_get R c (f_id f) ''A1:E3'' of
        Inl e \<Rightarrow> []
      | Inr v \<Rightarrow> (case vr_values v of None \<Rightarrow> [] | Some rows \<Rightarrow> rows))"

definition grid :: "jsval list list \<Rightarrow> jsval" where
  "grid rows = JArr (map JArr rows)"

definition sheet_item :: "remote \<Rightarrow> oauth_client \<Rightarrow> drive_file \<Rightarrow> jsval" where
  "sheet_item R c f =
     JObj
       [(''id'', jstr (f_id f)),
        (''name'', jstr (f_name f)),
        (''owners'',
           JArr (map jstr (filter truthy_str
             (map displayName (case f_owners f of None \<Rightarrow> [] | Some os \<Rightarrow> os))))),
        (''modifiedTime'', jstr (f_modifiedTime f)),
        (''preview'', grid (file_preview R c f))]"

definition api_sheets :: "library \<Rightarrow> env \<Rightarrow> remote \<Rightarrow> session \<Rightarrow> (string \<times> jsval) list \<Rightarrow> outcome" where
  "api_sheets L E R s qry =
     (case validate_sheets_query L qry of
        Inl error \<Rightarrow> ([], Json 400 (JObj [(''error'', JStr (message L error))]), s)
      | Inr v \<Rightarrow>
          (let c = getAuthedClients E (tokens s) s;
               dp = driveParams v
           in case skip_pages R c dp (page v) 1 None of
                (cs, Inl e) \<Rightarrow>
                  (cs, Json 500 (JObj [(''error'', JStr ''Failed to list sheets'')]), s)
              | (cs, Inr pageToken) \<Rightarrow>
                  (case files_list R c dp pageToken of
                     Inl e \<Rightarrow>
                       (cs @ [FilesList dp pageToken],
                        Json 500 (JObj [(''error'', JStr ''Failed to list sheets'')]), s)
                   | Inr resp \<Rightarrow>
                       (let fs = (case files resp of None \<Rightarrow> [] | Some l \<Rightarrow> l);
                            items = map (sheet_item R c) fs
                        in (cs @ [FilesList dp pageToken]
                              @ map (\<lambda>f. ValuesGet (f_id f) ''A1:E3'') fs,
                            Json 200 (JObj
                              [(''items'', JArr items),
                               (''total'', JNum (int (length items)))]),
                            s)))))"

definition sheets_refresh :: "session \<Rightarrow> outcome" where
  "sheets_refresh s = ([], Json 200 (JObj [(''ok'', JBool True)]), s)"

subsection \<open>Listing the tabs of a spreadsheet\<close>

definition tab_range :: "sheet_properties \<Rightarrow> string" where
  "tab_range p = [quote] @ replace_quote [quote, quote] (String (title p)) @ [quote] @ ''!A1:E3''"

text \<open>\<^verbatim>\<open>valuesByIndex[idx]?.values || []\<close>: an index past the end reads \<^verbatim>\<open>undefined\<close>.\<close>

definition tab_preview :: "value_range list \<Rightarrow> nat \<Rightarrow> jsval list list" where
  "tab_preview valuesByIndex idx =
     (if idx < length valuesByIndex
      then (case vr_values (valuesByIndex ! idx) of None \<Rightarrow> [] | Some rows \<Rightarrow> rows)
      else [])"

definition tab_item :: "value_range list \<Rightarrow> sheet_properties \<times> nat \<Rightarrow> jsval" where
  "tab_item valuesByIndex pi =
     JObj
       [(''title'', jstr (title (fst pi))),
        (''gid'', jnum (sheetId (fst pi))),
        (''preview'', grid (tab_preview valuesByIndex (snd pi)))]"

text \<open>\<^verbatim>\<open>(meta.data.sheets || []).map((s) => s.properties).filter(Boolean)\<close>.\<close>

definition sheetProps :: "spreadsheet \<Rightarrow> sheet_properties list" where
  "sheetProps meta =
     map the (filter (\<lambda>p. p \<noteq> None)
       (map properties (case sheets meta of None \<Rightarrow> [] | Some l \<Rightarrow> l)))"

definition tabs_fields :: string where
  "tabs_fields = ''sheets(properties(sheetId,title,index))''"

definition api_tabs :: "env \<Rightarrow> remote \<Rightarrow> session \<Rightarrow> string \<Rightarrow> outcome" where
  "api_tabs E R s spreadsheetId =
     (let c = getAuthedClients E (tokens s) s
      in case spreadsheets_get R c spreadsheetId tabs_fields of
           Inl e \<Rightarrow>
             ([SpreadsheetsGet spreadsheetId tabs_fields],
              Json 500 (JObj [(''error'', JStr ''Failed to fetch inner sheets'')]), s)
         | Inr meta \<Rightarrow>
             if length (sheetProps meta) = 0
             then ([SpreadsheetsGet spreadsheetId tabs_fields],
                   Json 200 (JObj [(''items'', JArr [])]), s)
             else
               (let ranges = map tab_range (sheetProps meta);
                    valuesByIndex =
                      (case values_batchGet R c spreadsheetId ranges of
                         Inl e \<Rightarrow> []
                       | Inr batch \<Rightarrow>
                           (case valueRanges batch of None \<Rightarrow> [] | Some l \<Rightarrow> l));
                    items = map (tab_item valuesByIndex)
                              (zip (sheetProps meta) [0 ..< length (sheetProps meta)])
                in ([SpreadsheetsGet spreadsheetId tabs_fields,
                     ValuesBatchGet spreadsheetId ranges],
                    Json 200 (JObj [(''items'', JArr items)]), s)))"

subsection \<open>Routing\<close>

definition handle :: "library \<Rightarrow> env \<Rightarrow> remote \<Rightarrow> session \<Rightarrow> request \<Rightarrow> outcome" where
  "handle L E R s req =
     (case req of
        GET_auth_login \<Rightarrow> auth_login L E s
      | GET_auth_callback code \<Rightarrow> auth_callback E R s code
      | GET_auth_client_config \<Rightarrow> get_client_config s
      | POST_auth_client_config body \<Rightarrow> post_client_config L E s body
      | GET_root \<Rightarrow> root E s
      | GET_auth_logout \<Rightarrow> auth_logout s
      | GET_api_me \<Rightarrow> ensureAuthed s (api_me E R s)
      | GET_api_sheets qry \<Rightarrow> ensureAuthed s (api_sheets L E R s qry)
      | POST_api_sheets_refresh sid \<Rightarrow> ensureAuthed s (sheets_refresh s)
      | GET_api_sheets_tabs sid \<Rightarrow> ensureAuthed s (api_tabs E R s sid))"

section \<open>Notions the properties are stated with\<close>

definition calls_of :: "outcome \<Rightarrow> call list" where
  "calls_of out = fst out"

definition response_of :: "outcome \<Rightarrow> response" where
  "response_of out = fst (snd out)"

definition session_of :: "outcome \<Rightarrow> session" where
  "session_of out = snd (snd out)"

text \<open>The routes registered with \<^verbatim>\<open>ensureAuthed\<close>.\<close>

fun authenticated_route :: "request \<Rightarrow> bool" where
  "authenticated_route GET_api_me = True"
| "authenticated_route (GET_api_sheets qry) = True"
| "authenticated_route (POST_api_sheets_refresh sid) = True"
| "authenticated_route (GET_api_sheets_tabs sid) = True"
| "authenticated_route _ = False"

text \<open>
  The value a field of the OAuth client is specified to take: the session's own when the
  session has a client configuration that sets the field to a non-empty string, the
  environment's otherwise.
\<close>

definition field_or_default ::
  "(client_config \<Rightarrow> string option) \<Rightarrow> session \<Rightarrow> string option \<Rightarrow> string option" where
  "field_or_default f s d =
     (case clientConfig s of
        None \<Rightarrow> d
      | Some cfg \<Rightarrow> (case f cfg of None \<Rightarrow> d | Some v \<Rightarrow> if v = [] then d else Some v))"

text \<open>The invariant of a stored client configuration.\<close>

definition client_config_ok :: "session \<Rightarrow> bool" where
  "client_config_ok s =
     (case clientConfig s of
        None \<Rightarrow> True
      | Some cfg \<Rightarrow>
          (case clientId cfg of None \<Rightarrow> False | Some a \<Rightarrow> 10 \<le> length a)
          \<and> (case clientSecret cfg of None \<Rightarrow> False | Some b \<Rightarrow> 10 \<le> length b)
          \<and> (case redirectUri cfg of None \<Rightarrow> False | Some u \<Rightarrow> u \<noteq> []))"

text \<open>The sessions a browser can hold: a new one, and what a handler leaves of one.\<close>

inductive reachable :: "library \<Rightarrow> env \<Rightarrow> session \<Rightarrow> bool" for L E where
  fresh: "reachable L E new_session"
| step: "reachable L E s \<Longrightarrow> reachable L E (session_of (handle L E R s req))"

text \<open>Escaping as the specification words it: each single quote becomes two.\<close>

definition double_quotes :: "string \<Rightarrow> string" where
  "double_quotes t = concat (map (\<lambda>c. if c = quote then [quote, quote] else [c]) t)"

text \<open>
  The page-token stream of a listing: the token that addresses page \<open>k + 1\<close> is the
  \<^verbatim>\<open>nextPageToken\<close> of page \<open>k\<close>, the first page being addressed by no token.
\<close>

definition next_token :: "remote \<Rightarrow> oauth_client \<Rightarrow> drive_params \<Rightarrow> string option \<Rightarrow> string option" where
  "next_token R c dp t =
     (case files_list R c dp t of Inl e \<Rightarrow> None | Inr r \<Rightarrow> nextPageToken r)"

primrec token_from ::
  "remote \<Rightarrow> oauth_client \<Rightarrow> drive_params \<Rightarrow> string option \<Rightarrow> nat \<Rightarrow> string option" where
  "token_from R c dp t 0 = t"
| "token_from R c dp t (Suc k) = token_from R c dp (next_token R c dp t) k"

text \<open>The listing call with the token \<open>t\<close> succeeds and names a following page.\<close>

definition has_next :: "remote \<Rightarrow> oauth_client \<Rightarrow> drive_params \<Rightarrow> string option \<Rightarrow> bool" where
  "has_next R c dp t =
     (case files_list R c dp t of Inl e \<Rightarrow> False | Inr r \<Rightarrow> truthy_str (nextPageToken r))"

text \<open>The stream is deep enough to walk \<open>n\<close> pages on from the token \<open>t\<close>.\<close>

primrec deep_enough ::
  "remote \<Rightarrow> oauth_client \<Rightarrow> drive_params \<Rightarrow> string option \<Rightarrow> nat \<Rightarrow> bool" where
  "deep_enough R c dp t 0 = True"
| "deep_enough R c dp t (Suc n) =
     (has_next R c dp t \<and> deep_enough R c dp (next_token R c dp t) n)"

text \<open>The listing calls that walk \<open>n\<close> pages on from the token \<open>t\<close>.\<close>

primrec walk_calls ::
  "remote \<Rightarrow> oauth_client \<Rightarrow> drive_params \<Rightarrow> string option \<Rightarrow> nat \<Rightarrow> call list" where
  "walk_calls R c dp t 0 = []"
| "walk_calls R c dp t (Suc n) = FilesList dp t # walk_calls R c dp (next_token R c dp t) n"

text \<open>The preview a listed file is specified to get.\<close>

definition preview_of :: "exn + value_range \<Rightarrow> jsval" where
  "preview_of r =
     (case r of
        Inl e \<Rightarrow> JArr []
      | Inr v \<Rightarrow> (case vr_values v of None \<Rightarrow> JArr [] | Some rows \<Rightarrow> JArr (map JArr rows)))"

text \<open>Reading a property of a value that is an object.\<close>

definition field :: "string \<Rightarrow> jsval \<Rightarrow> jsval" where
  "field k v = (case v of JObj kvs \<Rightarrow> get_prop kvs k | _ \<Rightarrow> JUndefined)"

text \<open>The files a listing response holds: \<^verbatim>\<open>resp.data.files || []\<close>.\<close>

definition listed :: "file_list \<Rightarrow> drive_file list" where
  "listed resp = (case files resp of None \<Rightarrow> [] | Some l \<Rightarrow> l)"

text \<open>
  The answer to the final listing call of a request for page \<open>pg\<close>; the error of the
  preliminary call that failed, when one did.
\<close>

definition final_listing :: "remote \<Rightarrow> oauth_client \<Rightarrow> drive_params \<Rightarrow> int \<Rightarrow> exn + file_list" where
  "final_listing R c dp pg =
     (case skip_pages R c dp pg 1 None of
        (cs, Inl e) \<Rightarrow> Inl e
      | (cs, Inr pageToken) \<Rightarrow> files_list R c dp pageToken)"

text \<open>The redirect URI a validated body makes the handler store.\<close>

definition stored_uri :: "env \<Rightarrow> client_config_value \<Rightarrow> string" where
  "stored_uri E v = (if v_redirectUri v \<noteq> [] then v_redirectUri v else default_redirect E)"

text \<open>The property \<open>k\<close> of each item of a listing response.\<close>

definition item_fields :: "string \<Rightarrow> response \<Rightarrow> jsval list" where
  "item_fields k r =
     (case r of
        Json st body \<Rightarrow>
          (case field ''items'' body of JArr items \<Rightarrow> map (field k) items | _ \<Rightarrow> [])
      | _ \<Rightarrow> [])"

text \<open>The page tokens of the listing calls of a trace, in order.\<close>

fun list_tokens :: "call list \<Rightarrow> string option list" where
  "list_tokens [] = []"
| "list_tokens (FilesList dp t # cs) = t # list_tokens cs"
| "list_tokens (c # cs) = list_tokens cs"

section \<open>A concrete deployment\<close>

text \<open>
  One library, environment and remote account to run the handlers on: a Drive listing
  of two pages (three spreadsheets, then one) in which the preview of the second
  spreadsheet cannot be read, a spreadsheet without tabs and one with a single tab.
\<close>

definition sample_message :: "joi_error \<Rightarrow> string" where
  "sample_message e =
     (case e of
        any_required k \<Rightarrow> k @ '' is required''
      | string_base k \<Rightarrow> k @ '' must be a string''
      | string_empty k \<Rightarrow> k @ '' is not allowed to be empty''
      | string_min k n \<Rightarrow> k @ '' length must be at least 10 characters long''
      | string_uri k \<Rightarrow> k @ '' must be a valid uri''
      | number_base k \<Rightarrow> k @ '' must be a number''
      | number_integer k \<Rightarrow> k @ '' must be an integer''
      | number_min k n \<Rightarrow> k @ '' must be greater than or equal to 1''
      | number_max k n \<Rightarrow> k @ '' must be less than or equal to 50''
      | object_base \<Rightarrow> ''value must be of type object''
      | object_unknown k \<Rightarrow> k @ '' is not allowed'')"

definition sample_library :: library where
  "sample_library =
     \<lparr>is_uri = (\<lambda>u. take 7 u = ''http://'' \<or> take 8 u = ''https://''),
      to_number = (\<lambda>n. case map_of [(''1'', 1), (''2'', 2), (''3'', 3), (''5'', 5)] n of
                          None \<Rightarrow> NotNumber
                        | Some i \<Rightarrow> Integral i),
      message = sample_message,
      generateAuthUrl = (\<lambda>c opts. ''https://accounts.google.com/o/oauth2/v2/auth'')\<rparr>"

definition sample_env :: env where
  "sample_env =
     \<lparr>GOOGLE_CLIENT_ID = Some ''env-client.apps.example'',
      GOOGLE_CLIENT_SECRET = Some ''env-client-secret'',
      GOOGLE_REDIRECT_URI = Some ''http://localhost:4000/auth/callback'',
      POST_LOGIN_REDIRECT = None\<rparr>"

definition sample_tokens :: tokens where
  "sample_tokens = Tokens ''ya29.sample'' (Some ''1//refresh'')"

definition signed_in :: session where
  "signed_in = \<lparr>tokens = Some sample_tokens, clientConfig = None\<rparr>"

definition sample_file :: "string \<Rightarrow> drive_file" where
  "sample_file n =
     \<lparr>f_id = Some n,
      f_name = Some (''Sheet '' @ n),
      f_owners = Some [\<lparr>displayName = Some ''Ada''\<rparr>],
      f_modifiedTime = Some ''2024-01-01T00:00:00.000Z''\<rparr>"

definition sample_remote :: remote where
  "sample_remote =
     \<lparr>getToken = (\<lambda>c code. Inr sample_tokens),
      userinfo_get = (\<lambda>c. Inl (Exn ''unavailable'')),
      files_list = (\<lambda>c dp t.
        if t = None
        then Inr \<lparr>files = Some [sample_file ''a'', sample_file ''b'', sample_file ''c''],
                  nextPageToken = Some ''t2''\<rparr>
        else if t = Some ''t2''
        then Inr \<lparr>files = Some [sample_file ''d''], nextPageToken = None\<rparr>
        else Inl (Exn ''invalid page token'')),
      values_get = (\<lambda>c fid rng.
        if fid = Some ''b'' then Inl (Exn ''forbidden'')
        else Inr \<lparr>vr_values = Some [[JStr ''x'', JNum 1]]\<rparr>),
      spreadsheets_get = (\<lambda>c sid flds.
        if sid = ''empty'' then Inr \<lparr>sheets = Some []\<rparr>
        else Inr \<lparr>sheets = Some
               [\<lparr>properties = Some \<lparr>sheetId = Some 0,
                                      title = Some (''Bob'' @ [quote] @ ''s Q1''),
                                      index = Some 0\<rparr>\<rparr>]\<rparr>),
      values_batchGet = (\<lambda>c sid ranges.
        Inr \<lparr>valueRanges = Some [\<lparr>vr_values = Some [[JStr ''x'']]\<rparr>]\<rparr>)\<rparr>"

text \<open>A signed-in session that already stores a client configuration.\<close>

definition configured :: session where
  "configured =
     \<lparr>tokens = Some sample_tokens,
      clientConfig = Some \<lparr>clientId = Some ''first-client.apps.example'',
                           clientSecret = Some ''first-client-secret'',
                           redirectUri = Some ''https://app.example/auth/callback''\<rparr>\<rparr>"

text \<open>The equations that run a handler on the concrete deployment.\<close>

lemmas sample_defs = sample_library_def sample_env_def sample_remote_def signed_in_def
  sample_tokens_def sample_file_def sample_message_def configured_def new_session_def

lemmas handler_defs = handle_def ensureAuthed_def api_sheets_def validate_sheets_query_def
  joi_integer_def joi_range_def joi_string_default_def get_prop_def driveParams_def
  getAuthedClients_def getOAuthClient_def cfg_field_def js_or_def sheet_item_def
  file_preview_def grid_def jstr_def jnum_def calls_of_def response_of_def session_of_def
  item_fields_def field_def Let_def api_tabs_def sheetProps_def tab_range_def tab_item_def
  tab_preview_def String_def post_client_config_def validate_client_config_def
  joi_string_min_required_def joi_uri_default_def default_redirect_def js_or_lit_def
  get_client_config_def client_config_present_def client_config_ok_def

section \<open>Lemmas about the handlers\<close>

subsection \<open>Client configuration\<close>

lemma short_secret_rejected:
  assumes "get_prop kvs ''clientSecret'' = JStr sec" and "length sec < 10"
  shows "\<exists>e. validate_client_config L E (JObj kvs) = Inl e"
  using assms
  by (auto simp: validate_client_config_def joi_string_min_required_def split: sum.splits)

lemma validated_lengths:
  assumes "validate_client_config L E body = Inr v"
  shows "10 \<le> length (v_clientId v)" and "10 \<le> length (v_clientSecret v)"
  using assms
  by (auto simp: validate_client_config_def joi_string_min_required_def
      split: sum.splits jsval.splits if_splits)

lemma js_or_lit_nonempty: "d \<noteq> [] \<Longrightarrow> js_or_lit a d \<noteq> []"
  by (simp add: js_or_lit_def split: option.splits)

lemma stored_uri_nonempty: "stored_uri E v \<noteq> []"
  by (simp add: stored_uri_def default_redirect_def js_or_lit_nonempty)

lemma post_client_config_valid:
  assumes "validate_client_config L E body = Inr v"
  shows "post_client_config L E s body =
     ([], Json 200 (JObj [(''ok'', JBool True), (''redirectUri'', JStr (stored_uri E v))]),
      s\<lparr>clientConfig := Some \<lparr>clientId = Some (v_clientId v),
                              clientSecret = Some (v_clientSecret v),
                              redirectUri = Some (stored_uri E v)\<rparr>\<rparr>)"
  using assms by (simp add: post_client_config_def stored_uri_def default_redirect_def Let_def)

lemma get_client_config_shape:
  "response_of (handle L E R t GET_auth_client_config)
     = Json 200 (JObj [(''configured'', JBool (client_config_present t)),
                       (''config'', if client_config_present t
                                    then JObj [(''redirectUri'', jstr (cfg_field redirectUri t))]
                                    else JNull)])"
  by (simp add: handle_def get_client_config_def response_of_def)

text \<open>
  What a handler can do to the stored client configuration: leave it, drop it with the
  session, or replace it by a validated one.
\<close>

lemma handle_client_config:
  "clientConfig (session_of (handle L E R s req)) = clientConfig s
   \<or> clientConfig (session_of (handle L E R s req)) = None
   \<or> (\<exists>body v. req = POST_auth_client_config body \<and> validate_client_config L E body = Inr v
        \<and> clientConfig (session_of (handle L E R s req))
           = Some \<lparr>clientId = Some (v_clientId v), clientSecret = Some (v_clientSecret v),
                   redirectUri = Some (stored_uri E v)\<rparr>)"
proof (cases req)
  case (POST_auth_client_config body)
  show ?thesis
  proof (cases "validate_client_config L E body")
    case (Inl e)
    with POST_auth_client_config show ?thesis
      by (simp add: handle_def post_client_config_def session_of_def)
  next
    case (Inr v)
    with POST_auth_client_config show ?thesis
      by (simp add: handle_def post_client_config_valid [OF Inr] session_of_def)
  qed
next
  case (GET_auth_callback code)
  then show ?thesis
    by (simp add: handle_def auth_callback_def session_of_def split: sum.splits)
next
  case (GET_api_sheets qry)
  then show ?thesis
    by (simp add: handle_def ensureAuthed_def api_sheets_def session_of_def Let_def
        split: sum.splits prod.splits)
next
  case (GET_api_sheets_tabs sid)
  then show ?thesis
    by (simp add: handle_def ensureAuthed_def api_tabs_def session_of_def Let_def
        split: sum.splits)
qed (simp_all add: handle_def ensureAuthed_def session_of_def auth_login_def
       get_client_config_def root_def auth_logout_def new_session_def api_me_def
       sheets_refresh_def Let_def split: sum.splits)

lemma handle_preserves_ok:
  assumes "client_config_ok s"
  shows "client_config_ok (session_of (handle L E R s req))"
  using handle_client_config [of L E R s req] assms
  by (auto simp: client_config_ok_def validated_lengths stored_uri_nonempty)

lemma reachable_client_config_ok: "reachable L E s \<Longrightarrow> client_config_ok s"
proof (induction rule: reachable.induct)
  case fresh
  show ?case by (simp add: client_config_ok_def new_session_def)
next
  case (step s R req)
  then show ?case by (simp add: handle_preserves_ok)
qed

subsection \<open>Tabs\<close>

lemma replace_quote_double: "replace_quote [quote, quote] t = double_quotes t"
  by (induction t) (simp_all add: double_quotes_def)

lemma double_quotes_id: "quote \<notin> set t \<Longrightarrow> double_quotes t = t"
  by (induction t) (auto simp: double_quotes_def)

lemma tab_range_title:
  "title p = Some t \<Longrightarrow> tab_range p = [quote] @ double_quotes t @ [quote] @ ''!A1:E3''"
  by (simp add: tab_range_def String_def replace_quote_double)

lemma api_tabs_calls:
  assumes "spreadsheets_get R (getAuthedClients E (tokens s) s) sid tabs_fields = Inr meta"
    and "sheetProps meta \<noteq> []"
  shows "calls_of (api_tabs E R s sid)
           = [SpreadsheetsGet sid tabs_fields, ValuesBatchGet sid (map tab_range (sheetProps meta))]"
  using assms by (simp add: api_tabs_def calls_of_def Let_def)

subsection \<open>Pagination\<close>

text \<open>
  Along a stream that is deep enough the loop never breaks: from \<open>(i, t)\<close> it issues one
  listing call per page up to \<open>pg\<close> and ends with the token that many pages on.
\<close>

lemma skip_pages_deep:
  "deep_enough R c dp t n \<Longrightarrow> pg = i + int n \<Longrightarrow>
   skip_pages R c dp pg i t = (walk_calls R c dp t n, Inr (token_from R c dp t n))"
proof (induction n arbitrary: i t)
  case 0
  then show ?case by (simp add: skip_pages.simps)
next
  case (Suc n)
  from Suc.prems(1) have hn: "has_next R c dp t"
    and deep: "deep_enough R c dp (next_token R c dp t) n" by simp_all
  from hn obtain r where r: "files_list R c dp t = Inr r" "truthy_str (nextPageToken r)"
    by (auto simp: has_next_def split: sum.splits)
  then have nt: "next_token R c dp t = nextPageToken r" by (simp add: next_token_def)
  from Suc.prems(2) have "i < pg" "pg = (i + 1) + int n" by simp_all
  with Suc.IH [OF deep, of "i + 1"] r nt show ?case
    by (subst skip_pages.simps) simp
qed

text \<open>
  Where the stream ends before page \<open>pg\<close>, the loop breaks after the call that found no
  further token, and the token it leaves for the final listing call is that missing
  \<^verbatim>\<open>nextPageToken\<close>, not the token of the page last read.
\<close>

lemma skip_pages_exhausted:
  assumes "deep_enough R c dp t k"
    and "files_list R c dp (token_from R c dp t k) = Inr r"
    and "\<not> truthy_str (nextPageToken r)"
    and "i + int k < pg"
  shows "skip_pages R c dp pg i t
           = (walk_calls R c dp t k @ [FilesList dp (token_from R c dp t k)],
              Inr (nextPageToken r))"
  using assms
proof (induction k arbitrary: i t)
  case 0
  then show ?case by (subst skip_pages.simps) simp
next
  case (Suc k)
  from Suc.prems(1) have hn: "has_next R c dp t"
    and deep: "deep_enough R c dp (next_token R c dp t) k" by simp_all
  from hn obtain r' where r': "files_list R c dp t = Inr r'" "truthy_str (nextPageToken r')"
    by (auto simp: has_next_def split: sum.splits)
  then have nt: "next_token R c dp t = nextPageToken r'" by (simp add: next_token_def)
  from Suc.prems(4) have lt: "i < pg" "(i + 1) + int k < pg" by simp_all
  from Suc.prems(2) have fin: "files_list R c dp (token_from R c dp (next_token R c dp t) k) = Inr r"
    by simp
  from Suc.IH [OF deep fin Suc.prems(3) lt(2)] r' nt lt(1) show ?case
    by (subst skip_pages.simps) simp
qed

lemma length_walk_calls: "length (walk_calls R c dp t n) = n"
  by (induction n arbitrary: t) simp_all

lemma joi_range_lo: "joi_range k lo hi n = Inr m \<Longrightarrow> lo \<le> m"
  by (auto simp: joi_range_def split: if_splits option.splits)

lemma joi_integer_lo: "joi_integer L lo hi d k x = Inr m \<Longrightarrow> lo \<le> d \<Longrightarrow> lo \<le> m"
  by (auto simp: joi_integer_def split: jsval.splits joi_number.splits dest: joi_range_lo)

lemma valid_page_ge_1: "validate_sheets_query L qry = Inr v \<Longrightarrow> 1 \<le> page v"
  by (auto simp: validate_sheets_query_def split: sum.splits option.splits dest: joi_integer_lo)

lemma api_sheets_unfold:
  assumes "validate_sheets_query L qry = Inr v"
    and "skip_pages R (getAuthedClients E (tokens s) s) (driveParams v) (page v) 1 None
           = (cs, Inr tok)"
  shows "api_sheets L E R s qry =
     (case files_list R (getAuthedClients E (tokens s) s) (driveParams v) tok of
        Inl e \<Rightarrow>
          (cs @ [FilesList (driveParams v) tok],
           Json 500 (JObj [(''error'', JStr ''Failed to list sheets'')]), s)
      | Inr resp \<Rightarrow>
          (cs @ [FilesList (driveParams v) tok]
             @ map (\<lambda>f. ValuesGet (f_id f) ''A1:E3'') (listed resp),
           Json 200 (JObj
             [(''items'', JArr (map (sheet_item R (getAuthedClients E (tokens s) s)) (listed resp))),
              (''total'', JNum (int (length (listed resp))))]),
           s))"
  using assms by (simp add: api_sheets_def Let_def listed_def split: sum.splits)

lemma list_tokens_previews: "list_tokens (map (\<lambda>f. ValuesGet (f_id f) rng) fs) = []"
  by (induction fs) simp_all

subsection \<open>Previews\<close>

lemma field_preview:
  "field ''preview'' (sheet_item R c f) = preview_of (values_get R c (f_id f) ''A1:E3'')"
  by (simp add: field_def sheet_item_def get_prop_def file_preview_def preview_of_def grid_def
      split: sum.splits option.splits)

lemma field_id: "field ''id'' (sheet_item R c f) = jstr (f_id f)"
  by (simp add: field_def sheet_item_def get_prop_def)

section \<open>Properties of the specification\<close>

text \<open>
  C1. The claim is that a request for a page past the end of the listing is answered
  with the last available page. On the concrete deployment the listing has two pages,
  \<open>a, b, c\<close> and then \<open>d\<close>. A request for page 3 walks both pages; the second walk
  stores the missing \<^verbatim>\<open>nextPageToken\<close> in \<^verbatim>\<open>pageToken\<close> before the loop breaks, so the final
  listing call carries no token and the response holds the first page \<open>a, b, c\<close>, not the
  last page \<open>d\<close> that a request for page 2 is answered with.
\<close>

theorem past_the_end_first_page:
  "item_fields ''id'' (response_of (handle sample_library sample_env sample_remote signed_in
      (GET_api_sheets [(''page'', JStr ''3'')]))) = [JStr ''a'', JStr ''b'', JStr ''c'']
   \<and> list_tokens (calls_of (handle sample_library sample_env sample_remote signed_in
      (GET_api_sheets [(''page'', JStr ''3'')]))) = [None, Some ''t2'', None]
   \<and> item_fields ''id'' (response_of (handle sample_library sample_env sample_remote signed_in
      (GET_api_sheets [(''page'', JStr ''2'')]))) = [JStr ''d'']"
  by (simp add: sample_defs handler_defs skip_pages.simps)

text \<open>
  C2. A request to an authenticated route (\<^verbatim>\<open>GET /api/me\<close>, \<^verbatim>\<open>GET /api/sheets\<close>,
  \<^verbatim>\<open>POST /api/sheets/:id/refresh\<close>, \<^verbatim>\<open>GET /api/sheets/:id/tabs\<close>) whose session holds no
  tokens issues no remote call and is answered with status 401 and the body
  \<^verbatim>\<open>{error: "Unauthorized"}\<close>; the session is left as it was.
\<close>

theorem unauthenticated_401:
  assumes "tokens s = None" and "authenticated_route req"
  shows "handle L E R s req = ([], Json 401 (JObj [(''error'', JStr ''Unauthorized'')]), s)"
  using assms by (cases req) (simp_all add: handle_def ensureAuthed_def)

theorem unauthenticated_401_witness:
  "tokens new_session = None \<and> authenticated_route (GET_api_sheets [(''page'', JStr ''2'')])
   \<and> handle sample_library sample_env sample_remote new_session
        (GET_api_sheets [(''page'', JStr ''2'')])
      = ([], Json 401 (JObj [(''error'', JStr ''Unauthorized'')]), new_session)"
proof -
  have t: "tokens new_session = None" by (simp add: new_session_def)
  have r: "authenticated_route (GET_api_sheets [(''page'', JStr ''2'')])" by simp
  from unauthenticated_401 [OF t r] t r show ?thesis by simp
qed

text \<open>
  C3. For \<^verbatim>\<open>GET /api/sheets?page=N\<close> on a signed-in session, with a page-token stream deep
  enough to walk \<open>N - 1\<close> pages on from the first, the handler issues exactly \<open>N - 1\<close>
  preliminary listing calls, one per page walked, and then the final listing call with
  the token those calls led to; the calls after it are preview fetches. The response is
  made of the answer to the final call alone. For page 2 that is one preliminary call,
  for page 1 none.
\<close>

theorem preliminary_calls:
  assumes "tokens s \<noteq> None"
    and "validate_sheets_query L qry = Inr v"
    and "c = getAuthedClients E (tokens s) s"
    and "dp = driveParams v"
    and "n = nat (page v - 1)"
    and "deep_enough R c dp None n"
  shows "\<exists>previews.
           calls_of (handle L E R s (GET_api_sheets qry))
             = walk_calls R c dp None n @ [FilesList dp (token_from R c dp None n)] @ previews
           \<and> length (walk_calls R c dp None n) = n
           \<and> int n = page v - 1
           \<and> list_tokens previews = []
           \<and> response_of (handle L E R s (GET_api_sheets qry))
               = (case files_list R c dp (token_from R c dp None n) of
                    Inl e \<Rightarrow> Json 500 (JObj [(''error'', JStr ''Failed to list sheets'')])
                  | Inr resp \<Rightarrow>
                      Json 200 (JObj
                        [(''items'', JArr (map (sheet_item R c) (listed resp))),
                         (''total'', JNum (int (length (listed resp))))]))"
proof -
  from valid_page_ge_1 [OF assms(2)] assms(5) have pg: "page v = 1 + int n" by simp
  have sk: "skip_pages R c dp (page v) 1 None
              = (walk_calls R c dp None n, Inr (token_from R c dp None n))"
    by (rule skip_pages_deep [OF assms(6) pg])
  have h: "handle L E R s (GET_api_sheets qry) = api_sheets L E R s qry"
    using assms(1) by (simp add: handle_def ensureAuthed_def)
  let ?previews = "case files_list R c dp (token_from R c dp None n) of
                   Inl e \<Rightarrow> []
                 | Inr resp \<Rightarrow> map (\<lambda>f. ValuesGet (f_id f) ''A1:E3'') (listed resp)"
  have "calls_of (handle L E R s (GET_api_sheets qry))
             = walk_calls R c dp None n @ [FilesList dp (token_from R c dp None n)] @ ?previews"
    using api_sheets_unfold [OF assms(2) sk [unfolded assms(3,4)]] assms(3,4) h
    by (simp add: calls_of_def split: sum.splits)
  moreover have "list_tokens ?previews = []"
    by (simp add: list_tokens_previews split: sum.splits)
  moreover have "response_of (handle L E R s (GET_api_sheets qry))
               = (case files_list R c dp (token_from R c dp None n) of
                    Inl e \<Rightarrow> Json 500 (JObj [(''error'', JStr ''Failed to list sheets'')])
                  | Inr resp \<Rightarrow>
                      Json 200 (JObj
                        [(''items'', JArr (map (sheet_item R c) (listed resp))),
                         (''total'', JNum (int (length (listed resp))))]))"
    using api_sheets_unfold [OF assms(2) sk [unfolded assms(3,4)]] assms(3,4) h
    by (simp add: response_of_def split: sum.splits)
  ultimately show ?thesis using pg by (auto simp: length_walk_calls)
qed

theorem preliminary_calls_witness:
  "tokens signed_in \<noteq> None
   \<and> validate_sheets_query sample_library [(''page'', JStr ''2''), (''pageSize'', JStr ''5'')]
       = Inr \<lparr>page = 2, pageSize = 5, query = ''''\<rparr>
   \<and> deep_enough sample_remote (getAuthedClients sample_env (tokens signed_in) signed_in)
        (driveParams \<lparr>page = 2, pageSize = 5, query = ''''\<rparr>) None (nat (2 - 1))
   \<and> calls_of (handle sample_library sample_env sample_remote signed_in
        (GET_api_sheets [(''page'', JStr ''2''), (''pageSize'', JStr ''5'')]))
      = [FilesList (driveParams \<lparr>page = 2, pageSize = 5, query = ''''\<rparr>) None,
         FilesList (driveParams \<lparr>page = 2, pageSize = 5, query = ''''\<rparr>) (Some ''t2''),
         ValuesGet (Some ''d'') ''A1:E3'']
   \<and> calls_of (handle sample_library sample_env sample_remote signed_in
        (GET_api_sheets [(''page'', JStr ''1''), (''pageSize'', JStr ''5'')]))
      = [FilesList (driveParams \<lparr>page = 1, pageSize = 5, query = ''''\<rparr>) None,
         ValuesGet (Some ''a'') ''A1:E3'', ValuesGet (Some ''b'') ''A1:E3'',
         ValuesGet (Some ''c'') ''A1:E3'']"
proof -
  let ?c = "getAuthedClients sample_env (tokens signed_in) signed_in"
  let ?v = "\<lparr>page = 2, pageSize = 5, query = ''''\<rparr>"
  let ?w = "\<lparr>page = 1, pageSize = 5, query = ''''\<rparr>"
  have a: "tokens signed_in \<noteq> None" by (simp add: signed_in_def)
  have b: "validate_sheets_query sample_library [(''page'', JStr ''2''), (''pageSize'', JStr ''5'')]
             = Inr ?v"
    by (simp add: sample_defs handler_defs)
  have b1: "validate_sheets_query sample_library [(''page'', JStr ''1''), (''pageSize'', JStr ''5'')]
             = Inr ?w"
    by (simp add: sample_defs handler_defs)
  have n: "nat (2 - 1) = nat (page ?v - 1)" by simp
  have n1: "0 = nat (page ?w - 1)" by simp
  have d: "deep_enough sample_remote ?c (driveParams ?v) None (nat (2 - 1))"
    by (simp add: sample_remote_def has_next_def)
  have d1: "deep_enough sample_remote ?c (driveParams ?w) None 0"
    by simp
  from preliminary_calls [OF a b refl refl n d]
  have two: "calls_of (handle sample_library sample_env sample_remote signed_in
        (GET_api_sheets [(''page'', JStr ''2''), (''pageSize'', JStr ''5'')]))
      = [FilesList (driveParams ?v) None, FilesList (driveParams ?v) (Some ''t2''),
         ValuesGet (Some ''d'') ''A1:E3'']"
    by (simp add: sample_defs handler_defs skip_pages.simps)
  from preliminary_calls [OF a b1 refl refl n1 d1]
  have one: "calls_of (handle sample_library sample_env sample_remote signed_in
        (GET_api_sheets [(''page'', JStr ''1''), (''pageSize'', JStr ''5'')]))
      = [FilesList (driveParams ?w) None,
         ValuesGet (Some ''a'') ''A1:E3'', ValuesGet (Some ''b'') ''A1:E3'',
         ValuesGet (Some ''c'') ''A1:E3'']"
    by (simp add: sample_defs handler_defs skip_pages.simps)
  from a b d two one show ?thesis by simp
qed

text \<open>
  C4. Whatever the session and the environment, the client that \<^verbatim>\<open>getOAuthClient\<close>
  builds takes each of \<^verbatim>\<open>clientId\<close>, \<^verbatim>\<open>clientSecret\<close> and \<^verbatim>\<open>redirectUri\<close> from the
  session's client configuration when the field is set there (to a non-empty string, as
  every stored field is), and from the environment when it is not: each field falls back
  on its own.
\<close>

theorem getOAuthClient_per_field:
  "oa_clientId (getOAuthClient E s) = field_or_default clientId s (GOOGLE_CLIENT_ID E)
   \<and> oa_clientSecret (getOAuthClient E s)
       = field_or_default clientSecret s (GOOGLE_CLIENT_SECRET E)
   \<and> oa_redirectUri (getOAuthClient E s)
       = field_or_default redirectUri s (GOOGLE_REDIRECT_URI E)"
  by (simp add: getOAuthClient_def field_or_default_def cfg_field_def js_or_def
           split: option.splits)

theorem getOAuthClient_per_field_witness:
  "getOAuthClient sample_env
     \<lparr>tokens = None,
      clientConfig = Some \<lparr>clientId = Some ''session-client-id'', clientSecret = None,
                           redirectUri = None\<rparr>\<rparr>
   = \<lparr>oa_clientId = Some ''session-client-id'',
      oa_clientSecret = Some ''env-client-secret'',
      oa_redirectUri = Some ''http://localhost:4000/auth/callback'',
      oa_credentials = None\<rparr>"
  using getOAuthClient_per_field [of sample_env
     "\<lparr>tokens = None,
      clientConfig = Some \<lparr>clientId = Some ''session-client-id'', clientSecret = None,
                           redirectUri = None\<rparr>\<rparr>"]
  by (simp add: getOAuthClient_def field_or_default_def sample_env_def)

text \<open>
  C5. A \<^verbatim>\<open>POST /auth/client-config\<close> whose body carries a \<^verbatim>\<open>clientSecret\<close> string
  shorter than 10 characters fails validation; the response is status 400 with the
  validation message, and the session, a stored client configuration included, is
  unchanged.
\<close>

theorem short_clientSecret_400:
  assumes "get_prop kvs ''clientSecret'' = JStr sec" and "length sec < 10"
  shows "\<exists>e. validate_client_config L E (JObj kvs) = Inl e
           \<and> handle L E R s (POST_auth_client_config (JObj kvs))
               = ([], Json 400 (JObj [(''error'', JStr (message L e))]), s)"
proof -
  from short_secret_rejected [OF assms] obtain e
    where e: "validate_client_config L E (JObj kvs) = Inl e" by blast
  then have "handle L E R s (POST_auth_client_config (JObj kvs))
               = ([], Json 400 (JObj [(''error'', JStr (message L e))]), s)"
    by (simp add: handle_def post_client_config_def)
  with e show ?thesis by blast
qed

theorem short_clientSecret_400_witness:
  "get_prop [(''clientId'', JStr ''second-client.apps.example''), (''clientSecret'', JStr ''short'')]
      ''clientSecret'' = JStr ''short''
   \<and> length ''short'' < 10
   \<and> handle sample_library sample_env sample_remote configured
        (POST_auth_client_config
           (JObj [(''clientId'', JStr ''second-client.apps.example''),
                  (''clientSecret'', JStr ''short'')]))
      = ([],
         Json 400 (JObj [(''error'',
                          JStr ''clientSecret length must be at least 10 characters long'')]),
         configured)"
proof -
  have a: "get_prop [(''clientId'', JStr ''second-client.apps.example''),
                     (''clientSecret'', JStr ''short'')] ''clientSecret'' = JStr ''short''"
    by (simp add: get_prop_def)
  have b: "length ''short'' < 10" by simp
  from short_clientSecret_400 [OF a b, of sample_library sample_env sample_remote configured]
  show ?thesis using a b
    by (simp add: sample_defs handler_defs)
qed

text \<open>
  C6. After a \<^verbatim>\<open>POST /auth/client-config\<close> with a valid body, \<^verbatim>\<open>GET /auth/client-config\<close>
  on the session answers \<^verbatim>\<open>configured: true\<close> with a \<^verbatim>\<open>config\<close> object that holds the
  stored \<^verbatim>\<open>redirectUri\<close> and nothing else. On any session the response of the \<^verbatim>\<open>GET\<close> is
  an object of the two keys \<^verbatim>\<open>configured\<close> and \<^verbatim>\<open>config\<close>, the latter \<^verbatim>\<open>null\<close> or an object
  of the single key \<^verbatim>\<open>redirectUri\<close>: neither the client id nor the client secret is in it.
\<close>

theorem post_then_get_client_config:
  assumes "validate_client_config L E body = Inr v"
    and "s' = session_of (handle L E R s (POST_auth_client_config body))"
  shows "(\<exists>uri. clientConfig s'
                 = Some \<lparr>clientId = Some (v_clientId v), clientSecret = Some (v_clientSecret v),
                         redirectUri = Some uri\<rparr>
              \<and> response_of (handle L E R' s' GET_auth_client_config)
                 = Json 200 (JObj [(''configured'', JBool True),
                                   (''config'', JObj [(''redirectUri'', JStr uri)])]))
         \<and> (\<forall>t. \<exists>b c. response_of (handle L E R' t GET_auth_client_config)
                         = Json 200 (JObj [(''configured'', JBool b), (''config'', c)])
                      \<and> (c = JNull \<or> c = JObj [(''redirectUri'', jstr (cfg_field redirectUri t))]))"
proof
  have cfg: "clientConfig s'
               = Some \<lparr>clientId = Some (v_clientId v), clientSecret = Some (v_clientSecret v),
                       redirectUri = Some (stored_uri E v)\<rparr>"
    by (simp add: assms(2) handle_def post_client_config_valid [OF assms(1)] session_of_def)
  from validated_lengths [OF assms(1)] have "v_clientId v \<noteq> []" "v_clientSecret v \<noteq> []"
    by auto
  with cfg have "client_config_present s'" "cfg_field redirectUri s' = Some (stored_uri E v)"
    by (simp_all add: client_config_present_def cfg_field_def)
  then have "response_of (handle L E R' s' GET_auth_client_config)
               = Json 200 (JObj [(''configured'', JBool True),
                                 (''config'', JObj [(''redirectUri'', JStr (stored_uri E v))])])"
    by (simp add: get_client_config_shape jstr_def)
  with cfg show "\<exists>uri. clientConfig s'
                 = Some \<lparr>clientId = Some (v_clientId v), clientSecret = Some (v_clientSecret v),
                         redirectUri = Some uri\<rparr>
              \<and> response_of (handle L E R' s' GET_auth_client_config)
                 = Json 200 (JObj [(''configured'', JBool True),
                                   (''config'', JObj [(''redirectUri'', JStr uri)])])"
    by blast
next
  show "\<forall>t. \<exists>b c. response_of (handle L E R' t GET_auth_client_config)
                         = Json 200 (JObj [(''configured'', JBool b), (''config'', c)])
                      \<and> (c = JNull \<or> c = JObj [(''redirectUri'', jstr (cfg_field redirectUri t))])"
    by (simp add: get_client_config_shape)
qed

theorem post_then_get_client_config_witness:
  "validate_client_config sample_library sample_env
     (JObj [(''clientId'', JStr ''second-client.apps.example''),
            (''clientSecret'', JStr ''second-client-secret''),
            (''redirectUri'', JStr '''')])
     = Inr \<lparr>v_clientId = ''second-client.apps.example'',
            v_clientSecret = ''second-client-secret'', v_redirectUri = ''''\<rparr>
   \<and> response_of (handle sample_library sample_env sample_remote
        (session_of (handle sample_library sample_env sample_remote signed_in
           (POST_auth_client_config
              (JObj [(''clientId'', JStr ''second-client.apps.example''),
                     (''clientSecret'', JStr ''second-client-secret''),
                     (''redirectUri'', JStr '''')]))))
        GET_auth_client_config)
      = Json 200 (JObj [(''configured'', JBool True),
                        (''config'',
                         JObj [(''redirectUri'', JStr ''http://localhost:4000/auth/callback'')])])"
proof -
  have a: "validate_client_config sample_library sample_env
     (JObj [(''clientId'', JStr ''second-client.apps.example''),
            (''clientSecret'', JStr ''second-client-secret''),
            (''redirectUri'', JStr '''')])
     = Inr \<lparr>v_clientId = ''second-client.apps.example'',
            v_clientSecret = ''second-client-secret'', v_redirectUri = ''''\<rparr>"
    by (simp add: sample_defs handler_defs)
  from post_then_get_client_config [OF a refl, of sample_remote signed_in sample_remote]
  show ?thesis using a
    by (simp add: sample_defs handler_defs)
qed

text \<open>
  C7. When \<^verbatim>\<open>GET /api/sheets\<close> ends with a listing of files, the response holds one item
  per listed file, in order. The preview of an item is the empty sequence when the preview
  fetch of its own file fails, and otherwise what that fetch returned: a failure does not
  touch the items of the other files.
\<close>

theorem preview_failures_isolated:
  assumes "tokens s \<noteq> None"
    and "validate_sheets_query L qry = Inr v"
    and "c = getAuthedClients E (tokens s) s"
    and "final_listing R c (driveParams v) (page v) = Inr resp"
  shows "\<exists>items.
           response_of (handle L E R s (GET_api_sheets qry))
             = Json 200 (JObj [(''items'', JArr items), (''total'', JNum (int (length items)))])
           \<and> length items = length (listed resp)
           \<and> (\<forall>i. i < length (listed resp) \<longrightarrow>
                 field ''id'' (items ! i) = jstr (f_id (listed resp ! i))
                 \<and> field ''preview'' (items ! i)
                     = (case values_get R c (f_id (listed resp ! i)) ''A1:E3'' of
                          Inl e \<Rightarrow> JArr []
                        | Inr vr \<Rightarrow>
                            (case vr_values vr of
                               None \<Rightarrow> JArr []
                             | Some rows \<Rightarrow> JArr (map JArr rows))))"
proof -
  obtain cs res where sk: "skip_pages R c (driveParams v) (page v) 1 None = (cs, res)"
    by (cases "skip_pages R c (driveParams v) (page v) 1 None")
  with assms(4) obtain tok where tok: "res = Inr tok" "files_list R c (driveParams v) tok = Inr resp"
    by (cases res) (simp_all add: final_listing_def)
  have h: "handle L E R s (GET_api_sheets qry) = api_sheets L E R s qry"
    using assms(1) by (simp add: handle_def ensureAuthed_def)
  let ?items = "map (sheet_item R c) (listed resp)"
  have "response_of (handle L E R s (GET_api_sheets qry))
          = Json 200 (JObj [(''items'', JArr ?items), (''total'', JNum (int (length ?items)))])"
    using api_sheets_unfold [OF assms(2) sk [unfolded tok(1) assms(3)]] tok(2) assms(3) h
    by (simp add: response_of_def)
  moreover have "length ?items = length (listed resp)" by simp
  moreover have "\<forall>i. i < length (listed resp) \<longrightarrow>
                 field ''id'' (?items ! i) = jstr (f_id (listed resp ! i))
                 \<and> field ''preview'' (?items ! i)
                     = (case values_get R c (f_id (listed resp ! i)) ''A1:E3'' of
                          Inl e \<Rightarrow> JArr []
                        | Inr vr \<Rightarrow>
                            (case vr_values vr of
                               None \<Rightarrow> JArr []
                             | Some rows \<Rightarrow> JArr (map JArr rows)))"
    by (simp add: field_id field_preview preview_of_def)
  ultimately show ?thesis by blast
qed

theorem preview_failures_isolated_witness:
  "tokens signed_in \<noteq> None
   \<and> validate_sheets_query sample_library [] = Inr \<lparr>page = 1, pageSize = 12, query = []\<rparr>
   \<and> final_listing sample_remote (getAuthedClients sample_env (tokens signed_in) signed_in)
        (driveParams \<lparr>page = 1, pageSize = 12, query = []\<rparr>) 1
      = Inr \<lparr>files = Some [sample_file ''a'', sample_file ''b'', sample_file ''c''],
             nextPageToken = Some ''t2''\<rparr>
   \<and> values_get sample_remote (getAuthedClients sample_env (tokens signed_in) signed_in)
        (Some ''b'') ''A1:E3'' = Inl (Exn ''forbidden'')
   \<and> item_fields ''id'' (response_of (handle sample_library sample_env sample_remote signed_in
        (GET_api_sheets []))) = [JStr ''a'', JStr ''b'', JStr ''c'']
   \<and> item_fields ''preview'' (response_of (handle sample_library sample_env sample_remote
        signed_in (GET_api_sheets [])))
      = [JArr [JArr [JStr ''x'', JNum 1]], JArr [], JArr [JArr [JStr ''x'', JNum 1]]]"
proof -
  let ?c = "getAuthedClients sample_env (tokens signed_in) signed_in"
  let ?v = "\<lparr>page = 1, pageSize = 12, query = []\<rparr>"
  have a: "tokens signed_in \<noteq> None" by (simp add: signed_in_def)
  have b: "validate_sheets_query sample_library [] = Inr ?v"
    by (simp add: sample_defs handler_defs)
  have c: "final_listing sample_remote ?c (driveParams ?v) (page ?v)
             = Inr \<lparr>files = Some [sample_file ''a'', sample_file ''b'', sample_file ''c''],
                    nextPageToken = Some ''t2''\<rparr>"
    by (simp add: final_listing_def skip_pages.simps sample_remote_def)
  have d: "values_get sample_remote ?c (Some ''b'') ''A1:E3'' = Inl (Exn ''forbidden'')"
    by (simp add: sample_remote_def)
  from preview_failures_isolated [OF a b refl c]
  have "item_fields ''id'' (response_of (handle sample_library sample_env sample_remote signed_in
          (GET_api_sheets []))) = [JStr ''a'', JStr ''b'', JStr ''c'']
        \<and> item_fields ''preview'' (response_of (handle sample_library sample_env sample_remote
             signed_in (GET_api_sheets [])))
           = [JArr [JArr [JStr ''x'', JNum 1]], JArr [], JArr [JArr [JStr ''x'', JNum 1]]]"
    by (simp add: sample_defs handler_defs skip_pages.simps)
  with a b c d show ?thesis by simp
qed

text \<open>
  C8. When the metadata of the spreadsheet reports no tab, \<^verbatim>\<open>GET /api/sheets/:id/tabs\<close>
  answers \<^verbatim>\<open>{items: []}\<close> and the metadata call is the only remote call: no values
  \<^verbatim>\<open>batchGet\<close> is attempted.
\<close>

theorem no_tabs_no_batch:
  assumes "tokens s \<noteq> None"
    and "spreadsheets_get R (getAuthedClients E (tokens s) s) sid tabs_fields = Inr meta"
    and "sheetProps meta = []"
  shows "handle L E R s (GET_api_sheets_tabs sid)
           = ([SpreadsheetsGet sid tabs_fields], Json 200 (JObj [(''items'', JArr [])]), s)"
  using assms by (simp add: handle_def ensureAuthed_def api_tabs_def)

theorem no_tabs_no_batch_witness:
  "tokens signed_in \<noteq> None
   \<and> spreadsheets_get sample_remote (getAuthedClients sample_env (tokens signed_in) signed_in)
        ''empty'' tabs_fields = Inr \<lparr>sheets = Some []\<rparr>
   \<and> sheetProps \<lparr>sheets = Some []\<rparr> = []
   \<and> handle sample_library sample_env sample_remote signed_in (GET_api_sheets_tabs ''empty'')
       = ([SpreadsheetsGet ''empty'' tabs_fields], Json 200 (JObj [(''items'', JArr [])]),
          signed_in)"
proof -
  have a: "tokens signed_in \<noteq> None" by (simp add: signed_in_def)
  have b: "spreadsheets_get sample_remote
             (getAuthedClients sample_env (tokens signed_in) signed_in) ''empty'' tabs_fields
           = Inr \<lparr>sheets = Some []\<rparr>"
    by (simp add: sample_remote_def)
  have c: "sheetProps \<lparr>sheets = Some []\<rparr> = []" by (simp add: sheetProps_def)
  from no_tabs_no_batch [OF a b c, of sample_library] a b c show ?thesis by simp
qed

text \<open>
  C9. The \<^verbatim>\<open>batchGet\<close> request of \<^verbatim>\<open>GET /api/sheets/:id/tabs\<close> carries one range per tab.
  The range of a tab titled \<open>t\<close> is \<open>t\<close> with every single quote doubled, wrapped in
  single quotes and followed by \<^verbatim>\<open>!A1:E3\<close>; a title without a single quote is embedded
  unchanged.
\<close>

theorem tab_ranges_escaped:
  assumes "tokens s \<noteq> None"
    and "spreadsheets_get R (getAuthedClients E (tokens s) s) sid tabs_fields = Inr meta"
    and "sheetProps meta \<noteq> []"
  shows "\<exists>ranges.
           calls_of (handle L E R s (GET_api_sheets_tabs sid))
             = [SpreadsheetsGet sid tabs_fields, ValuesBatchGet sid ranges]
           \<and> length ranges = length (sheetProps meta)
           \<and> (\<forall>i t. i < length (sheetProps meta) \<and> title (sheetProps meta ! i) = Some t \<longrightarrow>
                  ranges ! i = [quote] @ double_quotes t @ [quote] @ ''!A1:E3''
                  \<and> (quote \<notin> set t \<longrightarrow> ranges ! i = [quote] @ t @ [quote] @ ''!A1:E3''))"
proof -
  let ?ranges = "map tab_range (sheetProps meta)"
  have "calls_of (handle L E R s (GET_api_sheets_tabs sid))
          = [SpreadsheetsGet sid tabs_fields, ValuesBatchGet sid ?ranges]"
    using assms(1) api_tabs_calls [OF assms(2,3)] by (simp add: handle_def ensureAuthed_def)
  moreover have "length ?ranges = length (sheetProps meta)" by simp
  moreover have "\<forall>i t. i < length (sheetProps meta) \<and> title (sheetProps meta ! i) = Some t \<longrightarrow>
                  ?ranges ! i = [quote] @ double_quotes t @ [quote] @ ''!A1:E3''
                  \<and> (quote \<notin> set t \<longrightarrow> ?ranges ! i = [quote] @ t @ [quote] @ ''!A1:E3'')"
    by (simp add: tab_range_title double_quotes_id)
  ultimately show ?thesis by blast
qed

theorem tab_ranges_escaped_witness:
  "tokens signed_in \<noteq> None
   \<and> spreadsheets_get sample_remote (getAuthedClients sample_env (tokens signed_in) signed_in)
        ''x'' tabs_fields
      = Inr \<lparr>sheets = Some [\<lparr>properties = Some \<lparr>sheetId = Some 0,
                                      title = Some (''Bob'' @ [quote] @ ''s Q1''),
                                      index = Some 0\<rparr>\<rparr>]\<rparr>
   \<and> sheetProps \<lparr>sheets = Some [\<lparr>properties = Some \<lparr>sheetId = Some 0,
                                      title = Some (''Bob'' @ [quote] @ ''s Q1''),
                                      index = Some 0\<rparr>\<rparr>]\<rparr> \<noteq> []
   \<and> calls_of (handle sample_library sample_env sample_remote signed_in (GET_api_sheets_tabs ''x''))
      = [SpreadsheetsGet ''x'' tabs_fields,
         ValuesBatchGet ''x'' [[quote] @ ''Bob'' @ [quote, quote] @ ''s Q1'' @ [quote] @ ''!A1:E3'']]"
proof -
  let ?meta = "\<lparr>sheets = Some [\<lparr>properties = Some \<lparr>sheetId = Some 0,
                                      title = Some (''Bob'' @ [quote] @ ''s Q1''),
                                      index = Some 0\<rparr>\<rparr>]\<rparr>"
  have a: "tokens signed_in \<noteq> None" by (simp add: signed_in_def)
  have b: "spreadsheets_get sample_remote
             (getAuthedClients sample_env (tokens signed_in) signed_in) ''x'' tabs_fields
           = Inr ?meta"
    by (simp add: sample_remote_def)
  have c: "sheetProps ?meta \<noteq> []" by (simp add: sheetProps_def)
  have t: "title (sheetProps ?meta ! 0) = Some (''Bob'' @ [quote] @ ''s Q1'')"
    by (simp add: sheetProps_def)
  from tab_ranges_escaped [OF a b c, of sample_library] obtain ranges where
    r: "calls_of (handle sample_library sample_env sample_remote signed_in (GET_api_sheets_tabs ''x''))
          = [SpreadsheetsGet ''x'' tabs_fields, ValuesBatchGet ''x'' ranges]"
      "length ranges = length (sheetProps ?meta)"
      "\<forall>i t. i < length (sheetProps ?meta) \<and> title (sheetProps ?meta ! i) = Some t \<longrightarrow>
           ranges ! i = [quote] @ double_quotes t @ [quote] @ ''!A1:E3''"
    by blast
  from r(2) have len: "length ranges = 1" by (simp add: sheetProps_def)
  from r(3) t have "ranges ! 0 = [quote] @ double_quotes (''Bob'' @ [quote] @ ''s Q1'') @ [quote] @ ''!A1:E3''"
    by (simp add: sheetProps_def)
  then have "ranges ! 0 = [quote] @ ''Bob'' @ [quote, quote] @ ''s Q1'' @ [quote] @ ''!A1:E3''"
    by (simp add: double_quotes_def quote_def)
  with len have "ranges = [[quote] @ ''Bob'' @ [quote, quote] @ ''s Q1'' @ [quote] @ ''!A1:E3'']"
    by (cases ranges) simp_all
  with r(1) a b c show ?thesis by simp
qed

text \<open>
  C10. Every operation preserves the invariant of the stored client configuration: when
  \<^verbatim>\<open>session.clientConfig\<close> is present, its \<^verbatim>\<open>clientId\<close> and \<^verbatim>\<open>clientSecret\<close> are strings of
  at least 10 characters and its \<^verbatim>\<open>redirectUri\<close> is a non-empty string.
\<close>

theorem client_config_invariant:
  assumes "client_config_ok s"
  shows "client_config_ok (session_of (handle L E R s req))"
  using assms by (rule handle_preserves_ok)

theorem client_config_invariant_witness:
  "client_config_ok configured
   \<and> client_config_ok (session_of (handle sample_library sample_env sample_remote configured
        (POST_auth_client_config
           (JObj [(''clientId'', JStr ''second-client.apps.example''),
                  (''clientSecret'', JStr ''second-client-secret''),
                  (''redirectUri'', JStr '''')]))))
   \<and> clientConfig (session_of (handle sample_library sample_env sample_remote configured
        (POST_auth_client_config
           (JObj [(''clientId'', JStr ''second-client.apps.example''),
                  (''clientSecret'', JStr ''second-client-secret''),
                  (''redirectUri'', JStr '''')]))))
      = Some \<lparr>clientId = Some ''second-client.apps.example'',
              clientSecret = Some ''second-client-secret'',
              redirectUri = Some ''http://localhost:4000/auth/callback''\<rparr>"
proof -
  have a: "client_config_ok configured" by (simp add: configured_def client_config_ok_def)
  from client_config_invariant [OF a, of sample_library sample_env sample_remote
      "POST_auth_client_config
           (JObj [(''clientId'', JStr ''second-client.apps.example''),
                  (''clientSecret'', JStr ''second-client-secret''),
                  (''redirectUri'', JStr '''')])"]
  show ?thesis using a
    by (simp add: sample_defs handler_defs)
qed

end
